theory Spec2Isabelle
  imports Main
begin

section \<open>The output tree: Babel nodes\<close>

text \<open>
  The module \<^verbatim>\<open>src/expressions.ts\<close> turns a Glimmer (Handlebars) syntax tree into a
  Babel syntax tree. Babel's builders (\<^verbatim>\<open>Babel.stringLiteral\<close>, \<^verbatim>\<open>Babel.identifier\<close>,
  \<^verbatim>\<open>Babel.memberExpression\<close>, ...) allocate a node from their arguments; they are the
  constructors of the datatype below: \<open>Babel_stringLiteral\<close> is
  \<^verbatim>\<open>Babel.stringLiteral\<close>, and so on. At run time every Babel node has the one type \<^verbatim>\<open>Node\<close>, so the model has one datatype for expressions and
  JSX children alike.

  \<^item> \<open>'n\<close> is the type of JavaScript numbers (the code only carries them around);
  \<^item> \<open>'x\<close> is the type of the nodes that the other modules of the package build
    (\<^verbatim>\<open>convertElement\<close>, \<^verbatim>\<open>createFragment\<close>, \<^verbatim>\<open>resolveBlockStatement\<close>,
    \<^verbatim>\<open>createComment\<close>): JSX elements, fragments, and so on.
\<close>

datatype ('n, 'x) node =
    Babel_stringLiteral string
  | Babel_booleanLiteral bool
  | Babel_nullLiteral
  | Babel_numericLiteral 'n
  | Babel_identifier string
  | Babel_memberExpression "('n, 'x) node" "('n, 'x) node"
  | Babel_callExpression "('n, 'x) node" "('n, 'x) node list"
  | Babel_objectExpression "('n, 'x) node list"
  | Babel_objectProperty "('n, 'x) node" "('n, 'x) node"
  | Babel_binaryExpression string "('n, 'x) node" "('n, 'x) node"
  | Babel_jsxText string
  | Babel_jsxExpressionContainer "('n, 'x) node"
  | foreign 'x

text \<open>
  \<^verbatim>\<open>prepareJsxText\<close> and \<^verbatim>\<open>resolveElementChild\<close> return either one node or a
  JavaScript array of nodes; \<^verbatim>\<open>createChildren\<close> tells them apart with
  \<^verbatim>\<open>Array.isArray\<close>.
\<close>

datatype ('n, 'x) nodeOrArray =
    Node "('n, 'x) node"
  | Array "('n, 'x) node list"

section \<open>Escaping braces in JSX text\<close>

text \<open>
  \<^verbatim>\<open>text.split(/(:?{|})/)\<close>. The regular expression is one capture group with two
  alternatives: \<^verbatim>\<open>:?{\<close>, an optional colon followed by an opening brace, and \<^verbatim>\<open>}\<close>.
  \<open>regexExec s\<close> is the text that the expression matches at the head of \<open>s\<close> (the
  sticky match that \<^verbatim>\<open>split\<close> performs at each position), which is also the text of
  the capture group: the greedy \<^verbatim>\<open>:?\<close> takes the colon when a brace follows it, then
  the first alternative is tried without the colon, then the second alternative.

  A string is a list of characters; the three characters that the expression looks at are
  ASCII, and every other code unit behaves like any other character.
\<close>

definition regexExec :: "string \<Rightarrow> string option" where
  "regexExec s =
     (if take 2 s = '':{'' then Some '':{''
      else if take 1 s = ''{'' then Some ''{''
      else if take 1 s = ''}'' then Some ''}''
      else None)"

text \<open>
  The loop of \<^verbatim>\<open>RegExp.prototype[Symbol.split]\<close>, with no limit argument. In
  \<open>splitLoop T s\<close>, \<open>s\<close> is the input from position \<open>q\<close> on and \<open>T\<close> is the input
  between \<open>p\<close> (the end of the last match) and \<open>q\<close>. Where the expression does not
  match at \<open>q\<close>, \<open>q\<close> advances by one; where it matches, the piece \<open>T\<close> and then the
  capture group are appended to the result and both \<open>p\<close> and \<open>q\<close> move to the end of
  the match (which is never empty here). At the end of the input the rest \<open>T\<close> is
  appended, also when it is empty. Without a limit argument \<^verbatim>\<open>split\<close> stops at
  \<^verbatim>\<open>2^32 - 1\<close> pieces, more than a string that an engine can hold gives, and the
  model has no such bound.
\<close>

function splitLoop :: "string \<Rightarrow> string \<Rightarrow> string list" where
  "splitLoop T s =
     (if s = [] then [T]
      else case regexExec s of
        None \<Rightarrow> splitLoop (T @ [hd s]) (tl s)
      | Some m \<Rightarrow> T # m # splitLoop [] (drop (length m) s))"
  by pat_completeness auto
termination
  by (relation "measure (\<lambda>(T, s). length s)")
     (auto simp: regexExec_def split: if_splits)

declare splitLoop.simps [simp del]

definition splitText :: "string \<Rightarrow> string list" where
  "splitText text = splitLoop [] text"

text \<open>The callback of \<^verbatim>\<open>parts.map\<close> in \<^verbatim>\<open>prepareJsxText\<close>.\<close>

definition prepareJsxText_item :: "string \<Rightarrow> ('n, 'x) node" where
  "prepareJsxText_item item =
     (if item = ''{'' \<or> item = ''}'' then Babel_jsxExpressionContainer (Babel_stringLiteral item)
      else Babel_jsxText item)"

definition prepareJsxText :: "string \<Rightarrow> ('n, 'x) nodeOrArray" where
  "prepareJsxText text =
     (let parts = splitText text in
      if length parts = 1 then Node (Babel_jsxText text)
      else Array (map prepareJsxText_item parts))"

section \<open>The input tree: Glimmer nodes\<close>

text \<open>
  A path expression, of which the code reads \<^verbatim>\<open>original\<close> (the path as written) and
  \<^verbatim>\<open>parts\<close> (its segments).
\<close>

record pathExpression =
  original :: string
  parts :: "string list"

text \<open>
  \<^verbatim>\<open>Glimmer.Expression\<close>, by the \<^verbatim>\<open>type\<close> tag of the node. A sub-expression has a
  \<^verbatim>\<open>path\<close>, its \<^verbatim>\<open>params\<close> and the \<^verbatim>\<open>pairs\<close> of its \<^verbatim>\<open>hash\<close>, each pair a
  \<^verbatim>\<open>key\<close> and a \<^verbatim>\<open>value\<close>. The parser gives a literal node its value twice, as
  \<^verbatim>\<open>value\<close> and as \<^verbatim>\<open>original\<close>; the model keeps it once. \<open>OtherExpression\<close> is a node
  with any other tag, which TypeScript's types exclude and the \<^verbatim>\<open>default\<close> branch of
  \<^verbatim>\<open>resolveExpression\<close> is there for: it is given by its \<^verbatim>\<open>JSON.stringify\<close> image and
  by the string of its \<^verbatim>\<open>original\<close> property, where it has one.
\<close>

datatype 'n expression =
    SubExpression "'n expression" "'n expression list" "(string \<times> 'n expression) list"
  | PathExpression pathExpression
  | BooleanLiteral bool
  | NullLiteral
  | NumberLiteral 'n
  | StringLiteral string
  | UndefinedLiteral
  | OtherExpression string "string option"

text \<open>
  \<^verbatim>\<open>Glimmer.Statement\<close>. A mustache statement has the fields of a sub-expression. The code
  hands an element node to \<^verbatim>\<open>convertElement\<close> and a block statement to
  \<^verbatim>\<open>resolveBlockStatement\<close> without reading them: \<open>'el\<close> and \<open>'blk\<close> are their
  types. A text node has its \<^verbatim>\<open>chars\<close>, a comment its \<^verbatim>\<open>value\<close>, and
  \<open>OtherStatement\<close> is a node with any other \<^verbatim>\<open>type\<close> tag, which it carries.
\<close>

datatype ('n, 'el, 'blk) statement =
    ElementNode 'el
  | TextNode string
  | MustacheStatement "'n expression" "'n expression list" "(string \<times> 'n expression) list"
  | BlockStatement 'blk
  | MustacheCommentStatement string
  | CommentStatement string
  | OtherStatement string

section \<open>Errors and the imported functions\<close>

text \<open>
  Each \<^verbatim>\<open>throw\<close> of the module is an error value:
  \<^item> \<open>TopLevelComment\<close>: \<^verbatim>\<open>'Top level comments currently is not supported'\<close>;
  \<^item> \<open>UnexpectedExpression t\<close>: \<^verbatim>\<open>`Unexpected expression "${statement.type}"`\<close>;
  \<^item> \<open>UnexpectedMustacheStatement j\<close>:
    \<^verbatim>\<open>`Unexpected mustache statement: ${JSON.stringify(expression)}`\<close>;
  \<^item> \<open>EmptyExpressionParts\<close>: \<^verbatim>\<open>'Unexpected empty expression parts'\<close>;
  \<^item> \<open>OtherError m\<close>: any other error, thrown by an imported function.
\<close>

datatype error =
    TopLevelComment
  | UnexpectedExpression string
  | UnexpectedMustacheStatement string
  | EmptyExpressionParts
  | OtherError string

text \<open>
  The functions that the module imports from \<^verbatim>\<open>./elements\<close>, \<^verbatim>\<open>./blockStatements\<close> and
  \<^verbatim>\<open>./comments\<close> are parameters of the model: any function that returns a node or
  throws. \<open>numberToString\<close> is \<^verbatim>\<open>Number.prototype.toString\<close>.
\<close>

record ('n, 'el, 'blk, 'x) env =
  convertElement :: "'el \<Rightarrow> error + ('n, 'x) node"
  resolveBlockStatement :: "'blk \<Rightarrow> error + ('n, 'x) node"
  createComment :: "('n, 'el, 'blk) statement \<Rightarrow> error + ('n, 'x) node"
  createFragment :: "('n, 'x) node list \<Rightarrow> error + ('n, 'x) node"
  numberToString :: "'n \<Rightarrow> string"

section \<open>Paths\<close>

definition appendToPath :: "('n, 'x) node \<Rightarrow> ('n, 'x) node \<Rightarrow> ('n, 'x) node" where
  "appendToPath path append' = Babel_memberExpression path append'"

definition prependToPath :: "('n, 'x) node \<Rightarrow> ('n, 'x) node \<Rightarrow> ('n, 'x) node" where
  "prependToPath path prepend = Babel_memberExpression prepend path"

text \<open>The \<^verbatim>\<open>for\<close> loop of \<^verbatim>\<open>createPath\<close>, from the index \<open>i\<close> on.\<close>

function createPath_loop :: "string list \<Rightarrow> nat \<Rightarrow> ('n, 'x) node \<Rightarrow> ('n, 'x) node" where
  "createPath_loop ps i acc =
     (if i < length ps
      then createPath_loop ps (i + 1) (appendToPath acc (Babel_identifier (ps ! i)))
      else acc)"
  by pat_completeness auto
termination
  by (relation "measure (\<lambda>(ps, i, acc). length ps - i)") auto

declare createPath_loop.simps [simp del]

definition createPath :: "pathExpression \<Rightarrow> error + ('n, 'x) node" where
  "createPath pathExpression =
     (let ps = parts pathExpression in
      if length ps = 0 then Inl EmptyExpressionParts
      else Inr (createPath_loop ps 1 (Babel_identifier (ps ! 0))))"

section \<open>Expressions and helper calls\<close>

text \<open>
  \<^verbatim>\<open>expression.path.original?.toString()\<close>: \<open>None\<close> where \<^verbatim>\<open>original\<close> is
  \<^verbatim>\<open>undefined\<close> or \<^verbatim>\<open>null\<close> (the two literals of these names, and a sub-expression,
  which has no such property).
\<close>

fun original_toString :: "('n, 'el, 'blk, 'x) env \<Rightarrow> 'n expression \<Rightarrow> string option" where
  "original_toString env (SubExpression path ps pairs) = None"
| "original_toString env (PathExpression p) = Some (original p)"
| "original_toString env (BooleanLiteral b) = Some (if b then ''true'' else ''false'')"
| "original_toString env NullLiteral = None"
| "original_toString env (NumberLiteral n) = Some (numberToString env n)"
| "original_toString env (StringLiteral s) = Some s"
| "original_toString env UndefinedLiteral = None"
| "original_toString env (OtherExpression j orig) = orig"

text \<open>
  \<^verbatim>\<open>resolveExpression\<close> and \<^verbatim>\<open>resolveHelper\<close> call each other. \<open>resolveParams\<close> is
  \<^verbatim>\<open>expression.params.map(resolveExpression)\<close> and \<open>resolvePairs\<close> is the
  \<^verbatim>\<open>expression.hash.pairs.map(...)\<close> of \<^verbatim>\<open>resolveHelper\<close>: both go through the array in
  order, and the first \<^verbatim>\<open>throw\<close> ends them. \<^verbatim>\<open>resolveHelper\<close> takes the three fields that
  it reads of its argument.
\<close>

function resolveExpression ::
      "('n, 'el, 'blk, 'x) env \<Rightarrow> 'n expression \<Rightarrow> error + ('n, 'x) node"
  and resolveHelper ::
      "('n, 'el, 'blk, 'x) env \<Rightarrow> 'n expression \<Rightarrow> 'n expression list \<Rightarrow>
       (string \<times> 'n expression) list \<Rightarrow> error + ('n, 'x) node"
  and resolveParams ::
      "('n, 'el, 'blk, 'x) env \<Rightarrow> 'n expression list \<Rightarrow> error + ('n, 'x) node list"
  and resolvePairs ::
      "('n, 'el, 'blk, 'x) env \<Rightarrow> (string \<times> 'n expression) list \<Rightarrow>
       error + ('n, 'x) node list"
where
  "resolveExpression env (SubExpression path ps pairs) = resolveHelper env path ps pairs"
| "resolveExpression env (PathExpression p) = createPath p"
| "resolveExpression env (BooleanLiteral b) = Inr (Babel_booleanLiteral b)"
| "resolveExpression env NullLiteral = Inr Babel_nullLiteral"
| "resolveExpression env (NumberLiteral n) = Inr (Babel_numericLiteral n)"
| "resolveExpression env (StringLiteral s) = Inr (Babel_stringLiteral s)"
| "resolveExpression env UndefinedLiteral = Inr (Babel_identifier ''undefined'')"
| "resolveExpression env (OtherExpression j orig) = Inl (UnexpectedMustacheStatement j)"
| "resolveHelper env path ps pairs =
     (case resolveParams env ps of
        Inl e \<Rightarrow> Inl e
      | Inr params \<Rightarrow>
          (case resolvePairs env pairs of
             Inl e \<Rightarrow> Inl e
           | Inr props \<Rightarrow>
               (let hash = Babel_objectExpression props;
                    options = Babel_objectExpression
                                [Babel_objectProperty (Babel_stringLiteral ''hash'') hash]
                in Inr (Babel_callExpression
                          (Babel_identifier
                             (case original_toString env path of
                                Some name \<Rightarrow> name
                              | None \<Rightarrow> ''undefined''))
                          (params @ [options])))))"
| "resolveParams env [] = Inr []"
| "resolveParams env (p # ps) =
     (case resolveExpression env p of
        Inl e \<Rightarrow> Inl e
      | Inr r \<Rightarrow> (case resolveParams env ps of Inl e \<Rightarrow> Inl e | Inr rs \<Rightarrow> Inr (r # rs)))"
| "resolvePairs env [] = Inr []"
| "resolvePairs env ((key, v) # pairs) =
     (case resolveExpression env v of
        Inl e \<Rightarrow> Inl e
      | Inr r \<Rightarrow>
          (case resolvePairs env pairs of
             Inl e \<Rightarrow> Inl e
           | Inr rs \<Rightarrow> Inr (Babel_objectProperty (Babel_stringLiteral key) r # rs)))"
  by pat_completeness auto
termination
  by (relation "measure (\<lambda>x. case x of
        Inl (Inl (env, e)) \<Rightarrow> 3 * size e
      | Inl (Inr (env, path, ps, pairs)) \<Rightarrow>
          3 * (size_list size ps + size_list (size_prod (\<lambda>k. 0) size) pairs) + 2
      | Inr (Inl (env, ps)) \<Rightarrow> 3 * size_list size ps + 1
      | Inr (Inr (env, pairs)) \<Rightarrow> 3 * size_list (size_prod (\<lambda>k. 0) size) pairs + 1)")
     auto

section \<open>Statements and children\<close>

fun resolveStatement ::
  "('n, 'el, 'blk, 'x) env \<Rightarrow> ('n, 'el, 'blk) statement \<Rightarrow> error + ('n, 'x) node" where
  "resolveStatement env (ElementNode el) = convertElement env el"
| "resolveStatement env (TextNode chars) = Inr (Babel_stringLiteral chars)"
| "resolveStatement env (MustacheStatement path ps pairs) =
     (if length ps > 0 then resolveHelper env path ps pairs
      else resolveExpression env path)"
| "resolveStatement env (BlockStatement b) = resolveBlockStatement env b"
| "resolveStatement env (MustacheCommentStatement v) = Inl TopLevelComment"
| "resolveStatement env (CommentStatement v) = Inl TopLevelComment"
| "resolveStatement env (OtherStatement t) = Inl (UnexpectedExpression t)"

fun resolveElementChild ::
  "('n, 'el, 'blk, 'x) env \<Rightarrow> ('n, 'el, 'blk) statement \<Rightarrow> error + ('n, 'x) nodeOrArray" where
  "resolveElementChild env (ElementNode el) =
     (case convertElement env el of Inl e \<Rightarrow> Inl e | Inr r \<Rightarrow> Inr (Node r))"
| "resolveElementChild env (TextNode chars) = Inr (prepareJsxText chars)"
| "resolveElementChild env (MustacheCommentStatement v) =
     (case createComment env (MustacheCommentStatement v) of
        Inl e \<Rightarrow> Inl e | Inr r \<Rightarrow> Inr (Node r))"
| "resolveElementChild env (CommentStatement v) =
     (case createComment env (CommentStatement v) of
        Inl e \<Rightarrow> Inl e | Inr r \<Rightarrow> Inr (Node r))"
| "resolveElementChild env statement =
     (case resolveStatement env statement of
        Inl e \<Rightarrow> Inl e
      | Inr r \<Rightarrow> Inr (Node (Babel_jsxExpressionContainer r)))"

text \<open>
  \<^verbatim>\<open>body.reduce(..., [])\<close> in \<^verbatim>\<open>createChildren\<close>: \<open>acc\<close> is the accumulator, and an
  array child is spread into it.
\<close>

fun createChildren_reduce ::
  "('n, 'el, 'blk, 'x) env \<Rightarrow> ('n, 'x) node list \<Rightarrow> ('n, 'el, 'blk) statement list \<Rightarrow>
   error + ('n, 'x) node list" where
  "createChildren_reduce env acc [] = Inr acc"
| "createChildren_reduce env acc (statement # body) =
     (case resolveElementChild env statement of
        Inl e \<Rightarrow> Inl e
      | Inr (Array child) \<Rightarrow> createChildren_reduce env (acc @ child) body
      | Inr (Node child) \<Rightarrow> createChildren_reduce env (acc @ [child]) body)"

definition createChildren ::
  "('n, 'el, 'blk, 'x) env \<Rightarrow> ('n, 'el, 'blk) statement list \<Rightarrow> error + ('n, 'x) node list" where
  "createChildren env body = createChildren_reduce env [] body"

definition createRootChildren ::
  "('n, 'el, 'blk, 'x) env \<Rightarrow> ('n, 'el, 'blk) statement list \<Rightarrow> error + ('n, 'x) node" where
  "createRootChildren env body =
     (if length body = 1 then resolveStatement env (body ! 0)
      else case createChildren env body of
        Inl e \<Rightarrow> Inl e
      | Inr children \<Rightarrow> createFragment env children)"

text \<open>
  \<^verbatim>\<open>parts.reduce(..., null)\<close> in \<^verbatim>\<open>createConcat\<close>. The accumulator is \<^verbatim>\<open>null\<close> or a
  node, which is \<open>None\<close> or \<open>Some\<close> here; \<^verbatim>\<open>acc == null\<close> is \<open>acc = None\<close>. The result
  is the last accumulator, cast to the type of expressions.
\<close>

fun createConcat_reduce ::
  "('n, 'el, 'blk, 'x) env \<Rightarrow> ('n, 'x) node option \<Rightarrow> ('n, 'el, 'blk) statement list \<Rightarrow>
   error + ('n, 'x) node option" where
  "createConcat_reduce env acc [] = Inr acc"
| "createConcat_reduce env acc (item # items) =
     (case acc of
        None \<Rightarrow>
          (case resolveStatement env item of
             Inl e \<Rightarrow> Inl e
           | Inr r \<Rightarrow> createConcat_reduce env (Some r) items)
      | Some a \<Rightarrow>
          (case resolveStatement env item of
             Inl e \<Rightarrow> Inl e
           | Inr r \<Rightarrow> createConcat_reduce env (Some (Babel_binaryExpression ''+'' a r)) items))"

definition createConcat ::
  "('n, 'el, 'blk, 'x) env \<Rightarrow> ('n, 'el, 'blk) statement list \<Rightarrow> error + ('n, 'x) node option" where
  "createConcat env ps = createConcat_reduce env None ps"

section \<open>The text splitter as the specification words it\<close>

text \<open>
  The specification describes the splitter without a regular expression: scan the
  string, emit the run of other characters read so far and then the delimiter at each
  \<^verbatim>\<open>{\<close> or \<^verbatim>\<open>}\<close>, and the last run at the end; a string with no delimiter is one
  text node. These two definitions follow those words, not the code, and are compared
  with \<open>prepareJsxText\<close> below.
\<close>

fun spec_splitPieces :: "string \<Rightarrow> string \<Rightarrow> string list" where
  "spec_splitPieces run [] = [run]"
| "spec_splitPieces run (c # s) =
     (if c = CHR ''{'' \<or> c = CHR ''}'' then run # [c] # spec_splitPieces [] s
      else spec_splitPieces (run @ [c]) s)"

definition spec_splitMarkupText :: "string \<Rightarrow> ('n, 'x) nodeOrArray" where
  "spec_splitMarkupText raw =
     (if list_all (\<lambda>c. c \<noteq> CHR ''{'' \<and> c \<noteq> CHR ''}'') raw then Node (Babel_jsxText raw)
      else Array (map (\<lambda>piece. if piece = ''{'' \<or> piece = ''}''
                                then Babel_jsxExpressionContainer (Babel_stringLiteral piece)
                                else Babel_jsxText piece)
                      (spec_splitPieces [] raw)))"

section \<open>An environment to run the model in\<close>

text \<open>
  Imported functions that return a node made of their argument, and a number type with
  a toy \<open>numberToString\<close>: enough to evaluate the functions above on concrete trees.
\<close>

definition testEnv :: "(nat, string, string, string) env" where
  "testEnv =
     \<lparr>convertElement = (\<lambda>el. Inr (foreign el)),
      resolveBlockStatement = (\<lambda>b. Inr (foreign b)),
      createComment = (\<lambda>c. Inr (Babel_jsxExpressionContainer (foreign ''comment''))),
      createFragment = (\<lambda>children. Inr (Babel_callExpression (foreign ''fragment'') children)),
      numberToString = (\<lambda>n. replicate n (CHR ''1''))\<rparr>"

section \<open>Properties of the split\<close>

text \<open>The regular expression at the head of a string, and one step of the split loop.\<close>

lemma regexExec_Nil: "regexExec [] = None"
  by (simp add: regexExec_def)

lemma regexExec_Cons:
  "regexExec (c # s) =
     (if c = CHR '':'' \<and> s \<noteq> [] \<and> hd s = CHR ''{'' then Some '':{''
      else if c = CHR ''{'' then Some ''{''
      else if c = CHR ''}'' then Some ''}''
      else None)"
  by (cases s) (auto simp: regexExec_def)

lemma splitLoop_Nil: "splitLoop T [] = [T]"
  by (subst splitLoop.simps) simp

lemma splitLoop_brace:
  "c = CHR ''{'' \<or> c = CHR ''}'' \<Longrightarrow> splitLoop T (c # s) = T # [c] # splitLoop [] s"
  by (subst splitLoop.simps) (auto simp: regexExec_Cons)

lemma splitLoop_colon_brace:
  "splitLoop T (CHR '':'' # CHR ''{'' # s) = T # '':{'' # splitLoop [] s"
  by (subst splitLoop.simps) (simp add: regexExec_Cons)

lemma splitLoop_plain:
  "c \<noteq> CHR ''{'' \<Longrightarrow> c \<noteq> CHR ''}'' \<Longrightarrow> c \<noteq> CHR '':'' \<or> s = [] \<or> hd s \<noteq> CHR ''{'' \<Longrightarrow>
   splitLoop T (c # s) = splitLoop (T @ [c]) s"
  by (subst splitLoop.simps) (auto simp: regexExec_Cons)

text \<open>
  The pieces of a string that goes on after a delimiter are the pieces up to the
  delimiter, without the empty rest, and then the pieces of what follows.
\<close>

lemma splitLoop_not_Nil: "splitLoop T s \<noteq> []"
  by (induction T s rule: splitLoop.induct) (subst splitLoop.simps, simp split: option.split)

lemma splitLoop_append_brace:
  assumes "d = CHR ''{'' \<or> d = CHR ''}''"
  shows "splitLoop T (u @ d # v) = butlast (splitLoop T (u @ [d])) @ splitLoop [] v"
proof (induction "length u" arbitrary: u T rule: less_induct)
  case less
  show ?case
  proof (cases u)
    case Nil
    with assms show ?thesis by (simp add: splitLoop_brace splitLoop_Nil)
  next
    case (Cons c u')
    consider (colon) u'' where "c = CHR '':''" "u' = CHR ''{'' # u''"
      | (colon_end) "c = CHR '':''" "u' = []" "d = CHR ''{''"
      | (brace) "c = CHR ''{'' \<or> c = CHR ''}''"
      | (plain) "c \<noteq> CHR ''{''" "c \<noteq> CHR ''}''" "c \<noteq> CHR '':'' \<or> hd (u' @ [d]) \<noteq> CHR ''{''"
      by (cases u') auto
    then show ?thesis
    proof cases
      case colon
      then show ?thesis
        using less [of u'' "[]"] Cons by (simp add: splitLoop_colon_brace splitLoop_not_Nil)
    next
      case colon_end
      then show ?thesis using Cons by (simp add: splitLoop_colon_brace splitLoop_Nil)
    next
      case brace
      then show ?thesis
        using less [of u' "[]"] Cons by (simp add: splitLoop_brace splitLoop_not_Nil)
    next
      case plain
      then have "splitLoop T (c # u' @ d # v) = splitLoop (T @ [c]) (u' @ d # v)"
        and "splitLoop T (c # u' @ [d]) = splitLoop (T @ [c]) (u' @ [d])"
        by (cases u'; simp add: splitLoop_plain)+
      then show ?thesis
        using less [of u' "T @ [c]"] Cons by simp
    qed
  qed
qed

lemma splitLoop_last_empty:
  assumes "d = CHR ''{'' \<or> d = CHR ''}''"
  shows "last (splitLoop T (u @ [d])) = []"
proof (induction "length u" arbitrary: u T rule: less_induct)
  case less
  show ?case
  proof (cases u)
    case Nil
    with assms show ?thesis by (simp add: splitLoop_brace splitLoop_Nil)
  next
    case (Cons c u')
    consider (colon) u'' where "c = CHR '':''" "u' = CHR ''{'' # u''"
      | (colon_end) "c = CHR '':''" "u' = []" "d = CHR ''{''"
      | (brace) "c = CHR ''{'' \<or> c = CHR ''}''"
      | (plain) "c \<noteq> CHR ''{''" "c \<noteq> CHR ''}''" "c \<noteq> CHR '':'' \<or> hd (u' @ [d]) \<noteq> CHR ''{''"
      by (cases u') auto
    then show ?thesis
    proof cases
      case colon
      then show ?thesis
        using less [of u'' "[]"] Cons by (simp add: splitLoop_colon_brace splitLoop_not_Nil)
    next
      case colon_end
      then show ?thesis using Cons by (simp add: splitLoop_colon_brace splitLoop_Nil)
    next
      case brace
      then show ?thesis
        using less [of u' "[]"] Cons by (simp add: splitLoop_brace splitLoop_not_Nil)
    next
      case plain
      then have "splitLoop T (c # u' @ [d]) = splitLoop (T @ [c]) (u' @ [d])"
        by (cases u'; simp add: splitLoop_plain)
      then show ?thesis
        using less [of u' "T @ [c]"] Cons by simp
    qed
  qed
qed

lemma splitLoop_step:
  "splitLoop T (c # s) =
     (if c = CHR '':'' \<and> s \<noteq> [] \<and> hd s = CHR ''{'' then T # '':{'' # splitLoop [] (tl s)
      else if c = CHR ''{'' \<or> c = CHR ''}'' then T # [c] # splitLoop [] s
      else splitLoop (T @ [c]) s)"
  by (subst splitLoop.simps) (auto simp: regexExec_Cons drop_Suc)

text \<open>
  The split of a string with \<open>k\<close> braces has \<open>2 * k + 1\<close> pieces, and the pieces put
  together are the string.
\<close>

lemma splitLoop_length:
  "length (splitLoop T s) = 2 * length (filter (\<lambda>c. c = CHR ''{'' \<or> c = CHR ''}'') s) + 1"
proof (induction "length s" arbitrary: s T rule: less_induct)
  case less
  show ?case
  proof (cases s)
    case Nil
    then show ?thesis by (simp add: splitLoop_Nil)
  next
    case (Cons c s')
    show ?thesis
    proof (cases "c = CHR '':'' \<and> s' \<noteq> [] \<and> hd s' = CHR ''{''")
      case True
      then obtain r where "s' = CHR ''{'' # r" by (cases s') auto
      with True Cons less [of r "[]"] show ?thesis by (simp add: splitLoop_step)
    next
      case False
      with Cons less [of s' "[]"] less [of s' "T @ [c]"] show ?thesis
        by (auto simp: splitLoop_step)
    qed
  qed
qed

lemma splitLoop_concat: "concat (splitLoop T s) = T @ s"
proof (induction "length s" arbitrary: s T rule: less_induct)
  case less
  show ?case
  proof (cases s)
    case Nil
    then show ?thesis by (simp add: splitLoop_Nil)
  next
    case (Cons c s')
    show ?thesis
    proof (cases "c = CHR '':'' \<and> s' \<noteq> [] \<and> hd s' = CHR ''{''")
      case True
      then obtain r where "s' = CHR ''{'' # r" by (cases s') auto
      with True Cons less [of r "[]"] show ?thesis by (simp add: splitLoop_step)
    next
      case False
      with Cons less [of s' "[]"] less [of s' "T @ [c]"] show ?thesis
        by (auto simp: splitLoop_step)
    qed
  qed
qed

subsection \<open>The code against the specification's splitter\<close>

text \<open>
  On a string in which no opening brace follows a colon, the code and the
  specification's splitter return the same pieces and the same nodes.
\<close>

lemma splitLoop_eq_spec:
  "\<not> (\<exists>u v. s = u @ '':{'' @ v) \<Longrightarrow> splitLoop T s = spec_splitPieces T s"
proof (induction s arbitrary: T)
  case Nil
  then show ?case by (simp add: splitLoop_Nil)
next
  case (Cons c s)
  have tail: "\<not> (\<exists>u v. s = u @ '':{'' @ v)"
  proof
    assume "\<exists>u v. s = u @ '':{'' @ v"
    then obtain u v where "s = u @ '':{'' @ v" by blast
    then have "c # s = (c # u) @ '':{'' @ v" by simp
    with Cons.prems show False by blast
  qed
  have head: "\<not> (c = CHR '':'' \<and> s \<noteq> [] \<and> hd s = CHR ''{'')"
  proof
    assume h: "c = CHR '':'' \<and> s \<noteq> [] \<and> hd s = CHR ''{''"
    then obtain r where "s = CHR ''{'' # r" by (cases s) auto
    with h have "c # s = [] @ '':{'' @ r" by simp
    with Cons.prems show False by blast
  qed
  from head Cons.IH [OF tail] show ?case by (auto simp: splitLoop_step)
qed

lemma splitText_length_one:
  "length (splitText text) = Suc 0 \<longleftrightarrow> list_all (\<lambda>c. c \<noteq> CHR ''{'' \<and> c \<noteq> CHR ''}'') text"
  by (simp add: splitText_def splitLoop_length filter_empty_conv list_all_iff)

lemma prepareJsxText_eq_spec:
  assumes "\<not> (\<exists>u v. text = u @ '':{'' @ v)"
  shows "(prepareJsxText text :: ('n, 'x) nodeOrArray) = spec_splitMarkupText text"
proof -
  have "map (prepareJsxText_item :: string \<Rightarrow> ('n, 'x) node) (splitText text) =
        map (\<lambda>piece. if piece = ''{'' \<or> piece = ''}''
                      then Babel_jsxExpressionContainer (Babel_stringLiteral piece)
                      else Babel_jsxText piece) (spec_splitPieces [] text)"
    using splitLoop_eq_spec [OF assms, of "[]"]
    by (simp add: splitText_def prepareJsxText_item_def fun_eq_iff cong: map_cong)
  then show ?thesis
    by (simp add: prepareJsxText_def spec_splitMarkupText_def splitText_length_one Let_def)
qed

text \<open>The two examples of the specification.\<close>

lemmas split_eval = prepareJsxText_def splitText_def splitLoop_step splitLoop_Nil
  prepareJsxText_item_def

lemma prepareJsxText_example:
  "prepareJsxText ''a{b}c'' =
     Array [Babel_jsxText ''a'', Babel_jsxExpressionContainer (Babel_stringLiteral ''{''),
            Babel_jsxText ''b'', Babel_jsxExpressionContainer (Babel_stringLiteral ''}''),
            Babel_jsxText ''c'']"
  by (simp add: split_eval)

lemma prepareJsxText_no_braces:
  "prepareJsxText ''no braces'' = Node (Babel_jsxText ''no braces'')"
  by (simp add: split_eval)

text \<open>
  Claim C1: for every raw string, \<^verbatim>\<open>prepareJsxText\<close> splits at each \<^verbatim>\<open>{\<close> and
  \<^verbatim>\<open>}\<close>, keeps the delimiter as a piece of its own, and makes every such piece an
  expression container around a string literal of that one character, every other piece
  a text node.

  The code does not do so where a colon stands before an opening brace: the expression
  \<^verbatim>\<open>/(:?{|})/\<close> takes the colon into the match, the piece is \<^verbatim>\<open>:{\<close>, which is neither
  \<^verbatim>\<open>{\<close> nor \<^verbatim>\<open>}\<close>, and the brace goes into a text node unescaped. On \<^verbatim>\<open>a:{b\<close> the
  code returns three text nodes, where splitting at the brace gives the text \<^verbatim>\<open>a:\<close>,
  the container of \<^verbatim>\<open>{\<close> and the text \<^verbatim>\<open>b\<close>.
\<close>

theorem prepareJsxText_colon_brace:
  "(prepareJsxText ''a:{b'' :: ('n, 'x) nodeOrArray) =
     Array [Babel_jsxText ''a'', Babel_jsxText '':{'', Babel_jsxText ''b''] \<and>
   (spec_splitMarkupText ''a:{b'' :: ('n, 'x) nodeOrArray) =
     Array [Babel_jsxText ''a:'', Babel_jsxExpressionContainer (Babel_stringLiteral ''{''),
            Babel_jsxText ''b'']"
  by (simp add: split_eval spec_splitMarkupText_def)

subsection \<open>Empty pieces\<close>

text \<open>
  Claim C9: the empty pieces that the split produces between adjacent delimiters and at
  the ends of the string are kept, in order, as empty text nodes.

  For delimiters \<open>d1\<close> and \<open>d2\<close> and any strings \<open>u\<close> and \<open>v\<close>: a string that begins
  with \<open>d1\<close> gives an empty text node first, then the container of \<open>d1\<close>; a string that
  ends with \<open>d1\<close> gives an array whose last node is an empty text node; and where \<open>d2\<close>
  follows \<open>d1\<close> at once, the nodes are those of the string up to \<open>d1\<close>, the last of
  which is that empty text node, then the container of \<open>d2\<close>, then the nodes of the rest.
\<close>

theorem prepareJsxText_keeps_empty_pieces:
  assumes "d1 = CHR ''{'' \<or> d1 = CHR ''}''" and "d2 = CHR ''{'' \<or> d2 = CHR ''}''"
  shows
    "(prepareJsxText (d1 # v) :: ('n, 'x) nodeOrArray) =
       Array (Babel_jsxText [] # Babel_jsxExpressionContainer (Babel_stringLiteral [d1]) #
              map prepareJsxText_item (splitText v)) \<and>
     (prepareJsxText (u @ d1 # d2 # v) :: ('n, 'x) nodeOrArray) =
       Array (map prepareJsxText_item (splitText (u @ [d1])) @
              Babel_jsxExpressionContainer (Babel_stringLiteral [d2]) #
              map prepareJsxText_item (splitText v)) \<and>
     (prepareJsxText (u @ [d1]) :: ('n, 'x) nodeOrArray) =
       Array (map prepareJsxText_item (splitText (u @ [d1]))) \<and>
     (\<exists>ns. map prepareJsxText_item (splitText (u @ [d1])) =
             ns @ [Babel_jsxText [] :: ('n, 'x) node])"
proof -
  let ?item = "prepareJsxText_item :: string \<Rightarrow> ('n, 'x) node"
  have len: "length (splitText (w @ d1 # w')) \<noteq> 1" for w w'
    using assms(1) by (simp add: splitText_def splitLoop_length)
  have start: "splitText (d1 # v) = [] # [d1] # splitText v"
    using assms(1) by (simp add: splitText_def splitLoop_brace)
  have d1_item: "?item [d1] = Babel_jsxExpressionContainer (Babel_stringLiteral [d1])"
    and d2_item: "?item [d2] = Babel_jsxExpressionContainer (Babel_stringLiteral [d2])"
    and empty_item: "?item [] = Babel_jsxText []"
    using assms by (auto simp: prepareJsxText_item_def)
  have ne: "splitText (u @ [d1]) \<noteq> []"
    by (simp add: splitText_def splitLoop_not_Nil)
  have lastE: "last (splitText (u @ [d1])) = []"
    using assms(1) by (simp add: splitText_def splitLoop_last_empty)
  have "splitText (u @ d1 # d2 # v) = butlast (splitText (u @ [d1])) @ splitText (d2 # v)"
    using splitLoop_append_brace [OF assms(1), of "[]" u "d2 # v"] by (simp add: splitText_def)
  also have "splitText (d2 # v) = [] # [d2] # splitText v"
    using assms(2) by (simp add: splitText_def splitLoop_brace)
  also have "butlast (splitText (u @ [d1])) @ [] # [d2] # splitText v =
             (butlast (splitText (u @ [d1])) @ [last (splitText (u @ [d1]))]) @ [d2] # splitText v"
    by (simp add: lastE)
  also have "butlast (splitText (u @ [d1])) @ [last (splitText (u @ [d1]))] = splitText (u @ [d1])"
    using ne by simp
  finally have adj: "splitText (u @ d1 # d2 # v) = splitText (u @ [d1]) @ [d2] # splitText v" .
  have c1: "prepareJsxText (d1 # v) =
       Array (Babel_jsxText [] # Babel_jsxExpressionContainer (Babel_stringLiteral [d1]) #
              map ?item (splitText v))"
    using len [of "[]" v] by (simp add: prepareJsxText_def start d1_item empty_item)
  have c2: "prepareJsxText (u @ d1 # d2 # v) =
       Array (map ?item (splitText (u @ [d1])) @
              Babel_jsxExpressionContainer (Babel_stringLiteral [d2]) #
              map ?item (splitText v))"
    using len [of u "d2 # v"] by (simp add: prepareJsxText_def adj d2_item)
  have c3: "prepareJsxText (u @ [d1]) = Array (map ?item (splitText (u @ [d1])))"
    using len [of u "[]"] by (simp add: prepareJsxText_def)
  have "map ?item (splitText (u @ [d1])) =
        map ?item (butlast (splitText (u @ [d1]))) @ [?item (last (splitText (u @ [d1])))]"
    using ne by (metis append_butlast_last_id list.simps(8,9) map_append)
  then have c4: "\<exists>ns. map ?item (splitText (u @ [d1])) = ns @ [Babel_jsxText []]"
    by (simp add: lastE empty_item)
  from c1 c2 c3 c4 show ?thesis by blast
qed

theorem prepareJsxText_keeps_empty_pieces_witness:
  "(prepareJsxText ''{}'' :: (int, unit) nodeOrArray) =
     Array [Babel_jsxText [], Babel_jsxExpressionContainer (Babel_stringLiteral ''{''),
            Babel_jsxText [], Babel_jsxExpressionContainer (Babel_stringLiteral ''}''),
            Babel_jsxText []]"
  using prepareJsxText_keeps_empty_pieces [of "CHR ''{''" "CHR ''}''" "[]" "[]", where ?'n = int and ?'x = unit]
  by (simp add: splitText_def splitLoop_step splitLoop_Nil prepareJsxText_item_def)

section \<open>Properties of paths\<close>

text \<open>The loop of \<^verbatim>\<open>createPath\<close> appends the segments from index \<open>i\<close> on, in order.\<close>

lemma createPath_loop_foldl:
  "createPath_loop ps i acc = foldl appendToPath acc (map Babel_identifier (drop i ps))"
proof (induction ps i acc rule: createPath_loop.induct)
  case (1 ps i acc)
  show ?case
  proof (cases "i < length ps")
    case True
    then have "drop i ps = ps ! i # drop (Suc i) ps"
      by (simp add: Cons_nth_drop_Suc)
    with True 1 show ?thesis
      by (subst createPath_loop.simps) simp
  next
    case False
    then show ?thesis
      by (subst createPath_loop.simps) simp
  qed
qed

text \<open>
  Claim C3: for a path with segments \<open>a # rest\<close>, \<^verbatim>\<open>createPath\<close> returns the identifier
  \<open>a\<close> with each further segment appended as a member access, from the left: one
  segment gives \<open>a\<close>, two give \<open>a.b\<close>, three give \<open>(a.b).c\<close>.
\<close>

theorem createPath_left_assoc:
  "(createPath \<lparr>original = og, parts = a # rest\<rparr> :: error + ('n, 'x) node) =
     Inr (foldl appendToPath (Babel_identifier a) (map Babel_identifier rest)) \<and>
   (createPath \<lparr>original = og, parts = [a]\<rparr> :: error + ('n, 'x) node) =
     Inr (Babel_identifier a) \<and>
   (createPath \<lparr>original = og, parts = [a, b]\<rparr> :: error + ('n, 'x) node) =
     Inr (Babel_memberExpression (Babel_identifier a) (Babel_identifier b)) \<and>
   (createPath \<lparr>original = og, parts = [a, b, c]\<rparr> :: error + ('n, 'x) node) =
     Inr (Babel_memberExpression
            (Babel_memberExpression (Babel_identifier a) (Babel_identifier b))
            (Babel_identifier c))"
  by (simp add: createPath_def createPath_loop_foldl appendToPath_def)

text \<open>
  Claim C4: for a path with no segment, \<^verbatim>\<open>createPath\<close> throws
  \<^verbatim>\<open>'Unexpected empty expression parts'\<close> and returns no expression.
\<close>

theorem createPath_empty:
  "createPath \<lparr>original = og, parts = []\<rparr> = Inl EmptyExpressionParts"
  by (simp add: createPath_def)

section \<open>Properties of helper calls\<close>

text \<open>
  The two \<^verbatim>\<open>map\<close> calls of \<^verbatim>\<open>resolveHelper\<close> return when every element resolves, with the
  results in order, and otherwise throw what an element throws.
\<close>

lemma resolveParams_Inr:
  "resolveParams env ps = Inr args \<longleftrightarrow> map (resolveExpression env) ps = map Inr args"
proof (induction ps arbitrary: args)
  case Nil
  then show ?case by auto
next
  case (Cons p ps)
  show ?case
  proof (cases "resolveExpression env p")
    case (Inl e)
    then show ?thesis by (auto simp: map_eq_Cons_conv Cons_eq_map_conv)
  next
    case (Inr r)
    show ?thesis
    proof (cases "resolveParams env ps")
      case (Inl e)
      with Inr Cons.IH show ?thesis
        by (auto simp: map_eq_Cons_conv Cons_eq_map_conv)
    next
      case (Inr rs)
      with \<open>resolveExpression env p = Inr r\<close> Cons.IH [of rs] show ?thesis
        by (auto simp: map_eq_Cons_conv Cons_eq_map_conv)
    qed
  qed
qed

lemma resolvePairs_Inr:
  "resolvePairs env pairs = Inr props \<longleftrightarrow>
     (\<exists>vals. map (\<lambda>kv. resolveExpression env (snd kv)) pairs = map Inr vals \<and>
        props = map (\<lambda>(kv, r). Babel_objectProperty (Babel_stringLiteral (fst kv)) r)
                    (zip pairs vals))"
proof (induction pairs arbitrary: props)
  case Nil
  then show ?case by auto
next
  case (Cons kv pairs)
  obtain k v where kv: "kv = (k, v)" by (cases kv)
  show ?case
  proof (cases "resolveExpression env v")
    case (Inl e)
    then show ?thesis using kv by (auto simp: map_eq_Cons_conv)
  next
    case (Inr r)
    show ?thesis
    proof (cases "resolvePairs env pairs")
      case (Inl e)
      with Inr kv Cons.IH show ?thesis
        by (auto simp: map_eq_Cons_conv Cons_eq_map_conv)
    next
      case (Inr rs)
      with \<open>resolveExpression env v = Inr r\<close> kv Cons.IH [of rs] show ?thesis
        by (auto simp: map_eq_Cons_conv Cons_eq_map_conv)
    qed
  qed
qed

lemma resolveParams_Inl:
  "resolveParams env ps = Inl e \<Longrightarrow> \<exists>p \<in> set ps. resolveExpression env p = Inl e"
  by (induction ps) (auto split: sum.splits)

lemma resolvePairs_Inl:
  "resolvePairs env pairs = Inl e \<Longrightarrow> \<exists>kv \<in> set pairs. resolveExpression env (snd kv) = Inl e"
  by (induction pairs) (auto split: sum.splits)

text \<open>
  Claim C2: for a helper invocation with \<open>n\<close> positional arguments \<open>ps\<close> and named
  arguments \<open>pairs\<close>, \<^verbatim>\<open>resolveHelper\<close> returns a call whose arguments are the \<open>n\<close>
  resolved positional arguments, in order, and then one more: an object with the single
  property \<^verbatim>\<open>"hash"\<close>, whose value is the object of the pairs of a string-literal key and
  the resolved value. The last argument is there when \<open>pairs\<close> is empty too, as
  \<^verbatim>\<open>{ hash: {} }\<close>. The arguments are taken to resolve, to \<open>args\<close> and \<open>vals\<close>: the
  claim speaks of resolved arguments, and an argument that throws ends the call.
\<close>

theorem resolveHelper_arguments:
  assumes "map (resolveExpression env) ps = map Inr args"
    and "map (\<lambda>kv. resolveExpression env (snd kv)) pairs = map Inr vals"
  shows "resolveHelper env path ps pairs =
     Inr (Babel_callExpression
            (Babel_identifier (case original_toString env path of
                                 Some name \<Rightarrow> name | None \<Rightarrow> ''undefined''))
            (args @
             [Babel_objectExpression
                [Babel_objectProperty (Babel_stringLiteral ''hash'')
                   (Babel_objectExpression
                      (map (\<lambda>(kv, r). Babel_objectProperty (Babel_stringLiteral (fst kv)) r)
                           (zip pairs vals)))]]))
     \<and> length args = length ps \<and> length vals = length pairs"
proof -
  have p: "resolveParams env ps = Inr args"
    using assms(1) by (simp add: resolveParams_Inr)
  have h: "resolvePairs env pairs =
      Inr (map (\<lambda>(kv, r). Babel_objectProperty (Babel_stringLiteral (fst kv)) r)
               (zip pairs vals))"
    using assms(2) by (subst resolvePairs_Inr) blast
  have "length args = length ps" "length vals = length pairs"
    using assms by (metis length_map)+
  with p h show ?thesis by simp
qed

theorem resolveHelper_arguments_witness:
  "resolveHelper testEnv (PathExpression \<lparr>original = ''f'', parts = [''f'']\<rparr>)
     [StringLiteral ''x'', BooleanLiteral True] [(''k'', NullLiteral)] =
   Inr (Babel_callExpression (Babel_identifier ''f'')
          [Babel_stringLiteral ''x'', Babel_booleanLiteral True,
           Babel_objectExpression
             [Babel_objectProperty (Babel_stringLiteral ''hash'')
                (Babel_objectExpression
                   [Babel_objectProperty (Babel_stringLiteral ''k'') Babel_nullLiteral])]]) \<and>
   resolveHelper testEnv (PathExpression \<lparr>original = ''f'', parts = [''f'']\<rparr>)
     [StringLiteral ''x'', BooleanLiteral True] [] =
   Inr (Babel_callExpression (Babel_identifier ''f'')
          [Babel_stringLiteral ''x'', Babel_booleanLiteral True,
           Babel_objectExpression
             [Babel_objectProperty (Babel_stringLiteral ''hash'') (Babel_objectExpression [])]])"
  using resolveHelper_arguments [of testEnv "[StringLiteral ''x'', BooleanLiteral True]"
      "[Babel_stringLiteral ''x'', Babel_booleanLiteral True]" "[(''k'', NullLiteral)]"
      "[Babel_nullLiteral]" "PathExpression \<lparr>original = ''f'', parts = [''f'']\<rparr>"]
    resolveHelper_arguments [of testEnv "[StringLiteral ''x'', BooleanLiteral True]"
      "[Babel_stringLiteral ''x'', Babel_booleanLiteral True]" "[]"
      "[]" "PathExpression \<lparr>original = ''f'', parts = [''f'']\<rparr>"]
  by simp

text \<open>The paths that have no name: \<^verbatim>\<open>original\<close> is \<^verbatim>\<open>null\<close>, \<^verbatim>\<open>undefined\<close> or absent.\<close>

lemma original_toString_None:
  "original_toString env path = None \<longleftrightarrow>
     path = NullLiteral \<or> path = UndefinedLiteral \<or>
     (\<exists>p ps pairs. path = SubExpression p ps pairs) \<or> (\<exists>j. path = OtherExpression j None)"
  by (cases path) auto

text \<open>
  Claim C8: where the path of a helper invocation has no name, \<^verbatim>\<open>resolveHelper\<close> calls
  the identifier \<^verbatim>\<open>undefined\<close> and throws nothing for the missing name: either it returns
  a call of \<^verbatim>\<open>undefined\<close>, or what it throws is thrown by the resolution of one of the
  arguments.
\<close>

theorem resolveHelper_missing_callee:
  assumes "original_toString env path = None"
  shows "case resolveHelper env path ps pairs of
           Inr r \<Rightarrow> \<exists>args. r = Babel_callExpression (Babel_identifier ''undefined'') args
         | Inl e \<Rightarrow> (\<exists>p \<in> set ps. resolveExpression env p = Inl e) \<or>
                    (\<exists>kv \<in> set pairs. resolveExpression env (snd kv) = Inl e)"
proof (cases "resolveParams env ps")
  case (Inl e)
  with resolveParams_Inl [OF Inl] show ?thesis by simp
next
  case ps: (Inr params)
  show ?thesis
  proof (cases "resolvePairs env pairs")
    case (Inl e)
    with ps resolvePairs_Inl [OF Inl] show ?thesis by simp
  next
    case (Inr props)
    with ps assms show ?thesis by simp
  qed
qed

theorem resolveHelper_missing_callee_witness:
  "original_toString testEnv UndefinedLiteral = None \<and>
   resolveHelper testEnv UndefinedLiteral [StringLiteral ''x''] [] =
     Inr (Babel_callExpression (Babel_identifier ''undefined'')
            [Babel_stringLiteral ''x'',
             Babel_objectExpression
               [Babel_objectProperty (Babel_stringLiteral ''hash'') (Babel_objectExpression [])]])"
  using resolveHelper_missing_callee [of testEnv UndefinedLiteral "[StringLiteral ''x'']" "[]"]
  by simp

section \<open>Properties of statements, children and concatenation\<close>

text \<open>
  Claim C5: on a comment of either kind, \<^verbatim>\<open>resolveStatement\<close> throws
  \<^verbatim>\<open>'Top level comments currently is not supported'\<close>, and \<^verbatim>\<open>resolveElementChild\<close>
  returns what \<^verbatim>\<open>createComment\<close> returns for that node, and throws only what it throws.
\<close>

theorem comment_statement_child:
  "resolveStatement env (CommentStatement v) = Inl TopLevelComment \<and>
   resolveStatement env (MustacheCommentStatement v) = Inl TopLevelComment \<and>
   resolveElementChild env (CommentStatement v) =
     map_sum id Node (createComment env (CommentStatement v)) \<and>
   resolveElementChild env (MustacheCommentStatement v) =
     map_sum id Node (createComment env (MustacheCommentStatement v))"
  by (simp split: sum.split)

text \<open>
  Claim C6: on a list of one statement, \<^verbatim>\<open>createRootChildren\<close> is \<^verbatim>\<open>resolveStatement\<close>
  of that statement, with no fragment around it.
\<close>

theorem createRootChildren_single:
  "createRootChildren env [n] = resolveStatement env n"
  by (simp add: createRootChildren_def)

text \<open>Once the accumulator is a node, the \<^verbatim>\<open>reduce\<close> of \<^verbatim>\<open>createConcat\<close> is a left fold.\<close>

lemma createConcat_reduce_Some:
  "map (resolveStatement env) items = map Inr rs \<Longrightarrow>
   createConcat_reduce env (Some a) items =
     Inr (Some (foldl (Babel_binaryExpression ''+'') a rs))"
proof (induction items arbitrary: a rs)
  case Nil
  then show ?case by simp
next
  case (Cons item items)
  then obtain r rs' where "rs = r # rs'" "resolveStatement env item = Inr r"
    "map (resolveStatement env) items = map Inr rs'"
    by (cases rs) auto
  with Cons.IH [of rs' "Babel_binaryExpression ''+'' a r"] show ?case by simp
qed

text \<open>
  Claim C7: on a non-empty list of parts, \<^verbatim>\<open>createConcat\<close> folds from the left: the
  first resolved part is the accumulator, and each further resolved part is joined to it
  by a binary \<^verbatim>\<open>+\<close>, so that three parts give \<open>(a + b) + c\<close>. The parts are taken to
  resolve, to \<open>r # rs\<close>.
\<close>

theorem createConcat_left_fold:
  assumes "map (resolveStatement env) (p # ps) = map Inr (r # rs)"
  shows "createConcat env (p # ps) =
           Inr (Some (foldl (Babel_binaryExpression ''+'') r rs))"
  using assms by (simp add: createConcat_def createConcat_reduce_Some)

theorem createConcat_left_fold_witness:
  "createConcat testEnv [TextNode ''a'', TextNode ''b'', TextNode ''c''] =
     Inr (Some (Babel_binaryExpression ''+''
                  (Babel_binaryExpression ''+'' (Babel_stringLiteral ''a'')
                     (Babel_stringLiteral ''b''))
                  (Babel_stringLiteral ''c'')))"
  using createConcat_left_fold [of testEnv "TextNode ''a''" "[TextNode ''b'', TextNode ''c'']"
      "Babel_stringLiteral ''a''" "[Babel_stringLiteral ''b'', Babel_stringLiteral ''c'']"]
  by simp

text \<open>A part that throws, after parts that resolve, ends \<^verbatim>\<open>createConcat\<close> with its error.\<close>

lemma createConcat_reduce_error:
  "resolveStatement env item = Inl e \<Longrightarrow>
   map (resolveStatement env) items = map Inr rs \<Longrightarrow>
   createConcat_reduce env acc (items @ item # rest) = Inl e"
proof (induction items arbitrary: acc rs)
  case Nil
  then show ?case by (cases acc) simp_all
next
  case (Cons i items)
  then obtain r rs' where "rs = r # rs'" "resolveStatement env i = Inr r"
    "map (resolveStatement env) items = map Inr rs'"
    by (cases rs) auto
  with Cons.IH [OF Cons.prems(1), of rs'] show ?case by (cases acc) simp_all
qed

lemma createConcat_first_error:
  "resolveStatement env item = Inl e \<Longrightarrow>
   map (resolveStatement env) items = map Inr rs \<Longrightarrow>
   createConcat env (items @ item # rest) = Inl e"
  by (simp add: createConcat_def createConcat_reduce_error)

text \<open>
  Claim C10: on the empty list of parts, \<^verbatim>\<open>createConcat\<close> returns \<^verbatim>\<open>null\<close>, the initial
  accumulator: no expression, and no error.
\<close>

theorem createConcat_empty:
  "createConcat env [] = Inr None"
  by (simp add: createConcat_def)

end
